theory Spec2Isabelle
  imports Complex_Main
begin

section \<open>Python values used by train.py\<close>

text \<open>
  A Python float is an IEEE double: a finite number, one of the two infinities, or NaN.
  The finite ones are embedded in the reals (every double is a real; no theorem below
  depends on a real that is not a double). The loss of a step may be non-finite, which
  is why the three other values are kept.
\<close>

datatype pyfloat = Fin real | PosInf | NegInf | NaN

text \<open>The exceptions that the modelled statements of train.py can raise.\<close>

datatype error =
    StopIteration
  | ZeroDivisionError
  | AttributeError
  | RuntimeError

text \<open>
  A torch tensor, as far as \<open>state_dict\<close> and \<open>load_state_dict\<close> use one: a
  zero-dimensional tensor holding one element, or a one-dimensional tensor holding
  a sequence of them.
\<close>

datatype 'a tensor = Scalar 'a | Vector "'a list"

text \<open>
  \<open>Tensor.item()\<close> returns the element of a tensor that holds exactly one element
  and raises a RuntimeError for any other number of elements.
\<close>

fun item :: "'a tensor \<Rightarrow> error + 'a" where
  "item (Scalar x) = Inr x"
| "item (Vector [x]) = Inr x"
| "item (Vector xs) = Inl RuntimeError"

text \<open>
  \<open>Tensor.tolist()\<close> returns a Python list for a one-dimensional tensor and a bare
  number, not a list, for a zero-dimensional one.
\<close>

datatype 'a tolist_value = Bare 'a | Listed "'a list"

fun tolist :: "'a tensor \<Rightarrow> 'a tolist_value" where
  "tolist (Scalar x) = Bare x"
| "tolist (Vector xs) = Listed xs"

text \<open>
  \<open>torch.tensor(n, dtype=torch.int32)\<close> of a Python int raises a RuntimeError when
  \<open>n\<close> does not fit in 32 signed bits.
\<close>

definition int32_range :: "int \<Rightarrow> bool" where
  "int32_range n \<longleftrightarrow> - (2 ^ 31) \<le> n \<and> n < 2 ^ 31"

definition tensor_int32 :: "int \<Rightarrow> error + int tensor" where
  "tensor_int32 n = (if int32_range n then Inr (Scalar n) else Inl RuntimeError)"

section \<open>TrainState\<close>

text \<open>
  The dataclass of lines 34 to 38. The field \<open>losses\<close> is declared a list of floats;
  \<open>load_state_dict\<close> assigns it whatever \<open>tolist()\<close> returns, so the field holds a
  \<open>tolist_value\<close>. The default of \<open>current_loss\<close> is written \<open>-1\<close> in the source
  and is the number minus one.
\<close>

record TrainState =
  step :: int
  current_loss :: pyfloat
  losses :: "pyfloat tolist_value"

definition TrainState_init :: TrainState where
  "TrainState_init = \<lparr>step = 0, current_loss = Fin (- 1), losses = Listed []\<rparr>"

text \<open>
  The dictionary built by \<open>state_dict\<close> and read by \<open>load_state_dict\<close>, with its
  three keys as fields. The element type of each tensor is fixed to the one
  \<open>state_dict\<close> writes (Python would not enforce it); the shape is left free.
\<close>

record state_dict_rec =
  sd_step :: "int tensor"
  sd_current_loss :: "pyfloat tensor"
  sd_losses :: "pyfloat tensor"

text \<open>
  Lines 40 to 45. The conversion of a Python float to a float32 element and back
  (rounding to single precision) belongs to torch and is the parameter \<open>f32\<close>.
  The entry under the key "losses" is built from \<open>self.current_loss\<close>, as the
  source has it.
\<close>

definition state_dict :: "(pyfloat \<Rightarrow> pyfloat) \<Rightarrow> TrainState \<Rightarrow> error + state_dict_rec" where
  "state_dict f32 self =
     (case tensor_int32 (step self) of
        Inl e \<Rightarrow> Inl e
      | Inr t \<Rightarrow> Inr \<lparr>sd_step = t,
                     sd_current_loss = Scalar (f32 (current_loss self)),
                     sd_losses = Scalar (f32 (current_loss self))\<rparr>)"

text \<open>Lines 47 to 50: three assignments, each overwriting a field of \<open>self\<close>.\<close>

definition load_state_dict :: "TrainState \<Rightarrow> state_dict_rec \<Rightarrow> error + TrainState" where
  "load_state_dict self d =
     (case item (sd_step d) of
        Inl e \<Rightarrow> Inl e
      | Inr n \<Rightarrow>
          (case item (sd_current_loss d) of
             Inl e \<Rightarrow> Inl e
           | Inr c \<Rightarrow> Inr (self\<lparr>step := n, current_loss := c,
                                 losses := tolist (sd_losses d)\<rparr>)))"

text \<open>Restoring a state from its own snapshot.\<close>

definition restore_snapshot :: "(pyfloat \<Rightarrow> pyfloat) \<Rightarrow> TrainState \<Rightarrow> error + TrainState" where
  "restore_snapshot f32 self =
     (case state_dict f32 self of Inl e \<Rightarrow> Inl e | Inr d \<Rightarrow> load_state_dict self d)"

section \<open>The training loop\<close>

text \<open>
  A batch is a pair of token tensors (input ids, labels), each a list of rows.
  \<open>numel\<close> counts the elements of one.
\<close>

type_synonym tokens = "int list list"
type_synonym batch = "tokens \<times> tokens"

definition numel :: "tokens \<Rightarrow> int" where
  "numel t = int (length (concat t))"

text \<open>
  The part of the job configuration and of the objects built before the loop that the
  loop reads: \<open>training.steps\<close>, \<open>metrics.log_freq\<close>, the model-parallel size of the
  mesh, whether \<open>build_grad_scaler\<close> enabled gradient scaling (lines 67 to 76), and
  whether \<open>maybe_run_profiler\<close> handed out a profiler.
\<close>

record config =
  steps :: int
  log_freq :: int
  model_parallel_size :: int
  enable_grad_scaling :: bool
  profiler_active :: bool

text \<open>
  What the collaborators return during one iteration: the batches a new iterator over
  the data loader yields when it is created in this iteration, the value of
  \<open>loss.item()\<close>, whether the unscaled gradients are all finite, and the two readings of
  \<open>timer()\<close> at lines 223 and 245. The loop looks the iteration's record up under the
  step number that the iteration has just assigned.
\<close>

record step_env =
  loader_iter :: "batch list"
  loss_value :: pyfloat
  grads_finite :: bool
  t_log :: real
  t_reset :: real

text \<open>
  The calls the loop makes on its collaborators, in the order it makes them. A
  checkpoint save carries its two arguments and the TrainState that the checkpoint
  manager, which holds a reference to it, sees at that moment. A metric emission carries
  the step it is tagged with, the window of losses that the mean and maximum are taken
  of, and the throughput.
\<close>

datatype event =
    FetchBatch batch
  | ZeroGrad
  | Forward
  | Backward
  | UnscaleGrads
  | ClipGradNorm
  | ScalerStep
  | OptimizerStep
  | ScalerUpdate
  | ProfilerStep
  | MetricLog int "pyfloat list" real
  | Rank0Log int pyfloat
  | SchedulerStep
  | CheckpointSave int bool TrainState

text \<open>
  The variables the loop updates: \<open>train_state\<close> and the three locals of lines 170
  to 172, with the calls made so far.
\<close>

record loop_state =
  train_state :: TrainState
  losses_since_last_log :: "pyfloat list"
  nwords_since_last_log :: int
  time_last_log :: real
  trace :: "event list"

definition emit :: "event list \<Rightarrow> loop_state \<Rightarrow> loop_state" where
  "emit evs st = st\<lparr>trace := trace st @ evs\<rparr>"

text \<open>Lines 170 to 172, for a TrainState \<open>ts\<close> and a first timer reading \<open>t0\<close>.\<close>

definition loop_entry :: "TrainState \<Rightarrow> real \<Rightarrow> loop_state" where
  "loop_entry ts t0 =
     \<lparr>train_state = ts, losses_since_last_log = [], nwords_since_last_log = 0,
      time_last_log = t0, trace = []\<rparr>"

text \<open>Line 173.\<close>

definition loop_cond :: "config \<Rightarrow> loop_state \<Rightarrow> bool" where
  "loop_cond cfg st \<longleftrightarrow> step (train_state st) < steps cfg \<or> steps cfg = - 1"

text \<open>Line 174.\<close>

definition incr_step :: "loop_state \<Rightarrow> error + loop_state" where
  "incr_step st =
     Inr (st\<lparr>train_state := (train_state st)\<lparr>step := step (train_state st) + 1\<rparr>\<rparr>)"

text \<open>
  Lines 176 to 180: a new iterator over the data loader, its first element
  (StopIteration when there is none), and the count of words.
\<close>

definition fetch_batch :: "step_env \<Rightarrow> loop_state \<Rightarrow> error + loop_state" where
  "fetch_batch e st =
     (case loader_iter e of
        [] \<Rightarrow> Inl StopIteration
      | b # _ \<Rightarrow>
          Inr (emit [FetchBatch b]
                 (st\<lparr>nwords_since_last_log := nwords_since_last_log st + numel (snd b)\<rparr>)))"

text \<open>
  Lines 182 to 208. \<open>scaler.step(optimizer)\<close> calls \<open>optimizer.step()\<close> unless
  scaling is enabled and the gradients hold an inf or a NaN.
\<close>

definition compute :: "config \<Rightarrow> step_env \<Rightarrow> loop_state \<Rightarrow> error + loop_state" where
  "compute cfg e st =
     Inr (emit ([ZeroGrad, Forward, Backward, UnscaleGrads, ClipGradNorm, ScalerStep]
                @ (if enable_grad_scaling cfg \<and> \<not> grads_finite e then [] else [OptimizerStep])
                @ [ScalerUpdate]
                @ (if profiler_active cfg then [ProfilerStep] else [])) st)"

text \<open>
  Lines 210 to 212. \<open>append\<close> exists on a list only: on a bare float it is an
  AttributeError.
\<close>

definition record_loss :: "step_env \<Rightarrow> loop_state \<Rightarrow> error + loop_state" where
  "record_loss e st =
     (case losses (train_state st) of
        Bare _ \<Rightarrow> Inl AttributeError
      | Listed xs \<Rightarrow>
          Inr (st\<lparr>train_state := (train_state st)\<lparr>current_loss := loss_value e,
                                                 losses := Listed (xs @ [loss_value e])\<rparr>,
                  losses_since_last_log := losses_since_last_log st @ [loss_value e]\<rparr>))"

text \<open>
  Lines 215 to 245. Python's \<open>%\<close> raises for a zero divisor and otherwise is the
  floored remainder, as \<open>mod\<close> on \<open>int\<close> is; the float division of line 224 raises for
  a zero divisor. The throughput is kept as the exact quotient, which Python rounds to a
  double.
\<close>

definition log_metrics :: "config \<Rightarrow> step_env \<Rightarrow> loop_state \<Rightarrow> error + loop_state" where
  "log_metrics cfg e st =
     (if log_freq cfg = 0 then Inl ZeroDivisionError
      else if (step (train_state st) - 1) mod log_freq cfg = 0 then
        (let time_delta = t_log e - time_last_log st;
             denom = time_delta * real_of_int (model_parallel_size cfg)
         in if denom = 0 then Inl ZeroDivisionError
            else
              Inr (emit [MetricLog (step (train_state st)) (losses_since_last_log st)
                           (real_of_int (nwords_since_last_log st) / denom)]
                     (st\<lparr>losses_since_last_log := [],
                         nwords_since_last_log := 0,
                         time_last_log := t_reset e\<rparr>)))
      else Inr st)"

text \<open>Lines 247 to 250.\<close>

definition scheduler_step :: "loop_state \<Rightarrow> error + loop_state" where
  "scheduler_step st =
     Inr (emit [Rank0Log (step (train_state st)) (current_loss (train_state st)),
                SchedulerStep] st)"

text \<open>Line 252.\<close>

definition checkpoint_save :: "config \<Rightarrow> loop_state \<Rightarrow> error + loop_state" where
  "checkpoint_save cfg st =
     Inr (emit [CheckpointSave (step (train_state st))
                  (step (train_state st) = steps cfg) (train_state st)] st)"

text \<open>
  The body of the loop is the sequence of these statements. \<open>exec\<close> runs a sequence
  and stops at the first exception; \<open>points\<close> lists the states between the statements,
  one after each statement that returned.
\<close>

type_synonym stmt = "loop_state \<Rightarrow> error + loop_state"

definition body :: "config \<Rightarrow> step_env \<Rightarrow> stmt list" where
  "body cfg e =
     [incr_step, fetch_batch e, compute cfg e, record_loss e, log_metrics cfg e,
      scheduler_step, checkpoint_save cfg]"

fun exec :: "stmt list \<Rightarrow> loop_state \<Rightarrow> error + loop_state" where
  "exec [] st = Inr st"
| "exec (f # fs) st = (case f st of Inl e \<Rightarrow> Inl e | Inr st' \<Rightarrow> exec fs st')"

fun points :: "stmt list \<Rightarrow> loop_state \<Rightarrow> loop_state list" where
  "points [] st = []"
| "points (f # fs) st = (case f st of Inl e \<Rightarrow> [] | Inr st' \<Rightarrow> st' # points fs st')"

definition iteration :: "config \<Rightarrow> (int \<Rightarrow> step_env) \<Rightarrow> loop_state \<Rightarrow> error + loop_state" where
  "iteration cfg env st = exec (body cfg (env (step (train_state st) + 1))) st"

definition iteration_points :: "config \<Rightarrow> (int \<Rightarrow> step_env) \<Rightarrow> loop_state \<Rightarrow> loop_state list" where
  "iteration_points cfg env st = points (body cfg (env (step (train_state st) + 1))) st"

text \<open>\<open>n\<close> iterations in a row, whatever the loop condition says.\<close>

fun iterate :: "nat \<Rightarrow> config \<Rightarrow> (int \<Rightarrow> step_env) \<Rightarrow> loop_state \<Rightarrow> error + loop_state" where
  "iterate 0 cfg env st = Inr st"
| "iterate (Suc n) cfg env st =
     (case iteration cfg env st of Inl e \<Rightarrow> Inl e | Inr st' \<Rightarrow> iterate n cfg env st')"

text \<open>
  The while loop of line 173, which may run for ever: it is given a number of
  iterations it may start, and reports when that number did not suffice.
\<close>

datatype outcome = Done loop_state | Raised error | OutOfFuel loop_state

fun while_loop :: "nat \<Rightarrow> config \<Rightarrow> (int \<Rightarrow> step_env) \<Rightarrow> loop_state \<Rightarrow> outcome" where
  "while_loop 0 cfg env st = (if loop_cond cfg st then OutOfFuel st else Done st)"
| "while_loop (Suc fuel) cfg env st =
     (if loop_cond cfg st then
        (case iteration cfg env st of
           Inl e \<Rightarrow> Raised e
         | Inr st' \<Rightarrow> while_loop fuel cfg env st')
      else Done st)"

section \<open>Observations on the calls made\<close>

text \<open>The steps that the metric emissions of a sequence of calls are tagged with.\<close>

fun metric_steps :: "event list \<Rightarrow> int list" where
  "metric_steps [] = []"
| "metric_steps (MetricLog s w r # evs) = s # metric_steps evs"
| "metric_steps (ev # evs) = metric_steps evs"

text \<open>The batches fetched, in order.\<close>

fun fetched :: "event list \<Rightarrow> batch list" where
  "fetched [] = []"
| "fetched (FetchBatch b # evs) = b # fetched evs"
| "fetched (ev # evs) = fetched evs"

fun is_fetch :: "event \<Rightarrow> bool" where
  "is_fetch (FetchBatch b) = True"
| "is_fetch ev = False"

fun is_save :: "event \<Rightarrow> bool" where
  "is_save (CheckpointSave s f ts) = True"
| "is_save ev = False"

text \<open>
  The conditions under which no statement of the loop raises from the state \<open>st\<close> on:
  the log frequency and the model-parallel size are not zero, \<open>losses\<close> is a list, the
  data loader yields at least one batch whenever it is iterated, and the clock has moved
  on between a reading stored in \<open>time_last_log\<close> and any later reading at line 223.
\<close>

definition runnable :: "config \<Rightarrow> (int \<Rightarrow> step_env) \<Rightarrow> loop_state \<Rightarrow> bool" where
  "runnable cfg env st \<longleftrightarrow>
     log_freq cfg \<noteq> 0 \<and> model_parallel_size cfg \<noteq> 0 \<and>
     (\<exists>xs. losses (train_state st) = Listed xs) \<and>
     (\<forall>s. step (train_state st) < s \<longrightarrow>
        loader_iter (env s) \<noteq> [] \<and> time_last_log st < t_log (env s) \<and>
        (\<forall>s'. s < s' \<longrightarrow> t_reset (env s) < t_log (env s')))"

text \<open>
  A concrete run, after the end-to-end scenario of the specification: ten steps, a
  metric emission every five, a model-parallel size of one. Gradient scaling is enabled
  and the first step has non-finite gradients and a NaN loss. The data loader holds two
  batches and yields them in the same order whenever it is iterated; the clock ticks
  twice per step.
\<close>

definition scenario_config :: config where
  "scenario_config =
     \<lparr>steps = 10, log_freq = 5, model_parallel_size = 1,
      enable_grad_scaling = True, profiler_active = False\<rparr>"

definition scenario_env :: "int \<Rightarrow> step_env" where
  "scenario_env s =
     \<lparr>loader_iter = [([[1, 2]], [[2, 3]]), ([[3, 4]], [[4, 5]])],
      loss_value = (if s = 1 then NaN else Fin (1 / 2)),
      grads_finite = (s \<noteq> 1),
      t_log = real_of_int (2 * s),
      t_reset = real_of_int (2 * s + 1)\<rparr>"

section \<open>One iteration\<close>

lemmas stmt_defs = incr_step_def fetch_batch_def compute_def record_loss_def
  log_metrics_def scheduler_step_def checkpoint_save_def emit_def

text \<open>Everything an iteration that returns has done.\<close>

lemma iteration_Inr:
  assumes "iteration cfg env st = Inr st'"
  shows "\<exists>xs b rest.
     losses (train_state st) = Listed xs \<and>
     loader_iter (env (step (train_state st) + 1)) = b # rest \<and>
     log_freq cfg \<noteq> 0 \<and>
     train_state st' =
       (train_state st)\<lparr>step := step (train_state st) + 1,
          current_loss := loss_value (env (step (train_state st) + 1)),
          losses := Listed (xs @ [loss_value (env (step (train_state st) + 1))])\<rparr> \<and>
     (if step (train_state st) mod log_freq cfg = 0
      then (t_log (env (step (train_state st) + 1)) - time_last_log st)
              * real_of_int (model_parallel_size cfg) \<noteq> 0 \<and>
           losses_since_last_log st' = [] \<and> nwords_since_last_log st' = 0 \<and>
           time_last_log st' = t_reset (env (step (train_state st) + 1))
      else losses_since_last_log st' =
             losses_since_last_log st @ [loss_value (env (step (train_state st) + 1))] \<and>
           nwords_since_last_log st' = nwords_since_last_log st + numel (snd b) \<and>
           time_last_log st' = time_last_log st) \<and>
     trace st' = trace st @
       [FetchBatch b, ZeroGrad, Forward, Backward, UnscaleGrads, ClipGradNorm, ScalerStep]
       @ (if enable_grad_scaling cfg \<and> \<not> grads_finite (env (step (train_state st) + 1))
          then [] else [OptimizerStep])
       @ [ScalerUpdate]
       @ (if profiler_active cfg then [ProfilerStep] else [])
       @ (if step (train_state st) mod log_freq cfg = 0
          then [MetricLog (step (train_state st) + 1)
                  (losses_since_last_log st @ [loss_value (env (step (train_state st) + 1))])
                  (real_of_int (nwords_since_last_log st + numel (snd b)) /
                    ((t_log (env (step (train_state st) + 1)) - time_last_log st)
                       * real_of_int (model_parallel_size cfg)))]
          else [])
       @ [Rank0Log (step (train_state st) + 1) (loss_value (env (step (train_state st) + 1))),
          SchedulerStep,
          CheckpointSave (step (train_state st) + 1) (step (train_state st) + 1 = steps cfg)
            (train_state st')]"
  using assms
  unfolding iteration_def body_def
  by (auto simp add: stmt_defs Let_def split: list.splits tolist_value.splits if_splits)

lemma metric_steps_append: "metric_steps (xs @ ys) = metric_steps xs @ metric_steps ys"
  by (induction xs rule: metric_steps.induct) simp_all

lemma fetched_append: "fetched (xs @ ys) = fetched xs @ fetched ys"
  by (induction xs rule: fetched.induct) simp_all

lemma iteration_succeeds:
  assumes "runnable cfg env st"
  shows "\<exists>st'. iteration cfg env st = Inr st'"
proof -
  let ?e = "env (step (train_state st) + 1)"
  from assms obtain xs where xs: "losses (train_state st) = Listed xs"
    and f: "log_freq cfg \<noteq> 0" and m: "model_parallel_size cfg \<noteq> 0"
    and l: "loader_iter ?e \<noteq> []" and t: "time_last_log st < t_log ?e"
    unfolding runnable_def by force
  from l obtain b :: batch and rest :: "batch list" where b: "loader_iter ?e = b # rest" by (cases "loader_iter ?e") auto
  from t m have d: "(t_log ?e - time_last_log st) * real_of_int (model_parallel_size cfg) \<noteq> 0"
    by simp
  show ?thesis
    unfolding iteration_def body_def
    using xs f b d by (simp add: stmt_defs Let_def)
qed

lemma iteration_runnable:
  assumes "runnable cfg env st" and "iteration cfg env st = Inr st'"
  shows "runnable cfg env st'"
proof -
  from iteration_Inr [OF assms(2)] obtain xs b rest where
    tr: "train_state st' =
       (train_state st)\<lparr>step := step (train_state st) + 1,
          current_loss := loss_value (env (step (train_state st) + 1)),
          losses := Listed (xs @ [loss_value (env (step (train_state st) + 1))])\<rparr>"
    and tm: "time_last_log st' = t_reset (env (step (train_state st) + 1))
             \<or> time_last_log st' = time_last_log st"
    by (auto split: if_splits)
  have s: "step (train_state st') = step (train_state st) + 1" using tr by simp
  have "time_last_log st' < t_log (env u)" if "step (train_state st') < u" for u
  proof -
    from that s have u: "step (train_state st) + 1 < u" "step (train_state st) < u" by simp_all
    from tm show ?thesis
    proof
      assume "time_last_log st' = t_reset (env (step (train_state st) + 1))"
      moreover have "t_reset (env (step (train_state st) + 1)) < t_log (env u)"
        using assms(1) u(1) unfolding runnable_def by (meson zless_add1_eq)
      ultimately show ?thesis by simp
    next
      assume "time_last_log st' = time_last_log st"
      then show ?thesis using assms(1) u(2) unfolding runnable_def by simp
    qed
  qed
  moreover have "loader_iter (env u) \<noteq> [] \<and> (\<forall>s'. u < s' \<longrightarrow> t_reset (env u) < t_log (env s'))"
    if "step (train_state st') < u" for u
    using that s assms(1) unfolding runnable_def by simp
  ultimately show ?thesis
    using assms(1) tr unfolding runnable_def by simp
qed

lemma iterate_succeeds:
  "runnable cfg env st \<Longrightarrow> \<exists>st'. iterate n cfg env st = Inr st' \<and> runnable cfg env st'"
proof (induction n arbitrary: st)
  case 0
  then show ?case by simp
next
  case (Suc n)
  from iteration_succeeds [OF Suc.prems] obtain st1 where i: "iteration cfg env st = Inr st1"
    by blast
  from iteration_runnable [OF Suc.prems i] have "runnable cfg env st1" .
  from Suc.IH [OF this] i show ?case by simp
qed

lemma iteration_step:
  "iteration cfg env st = Inr st' \<Longrightarrow> step (train_state st') = step (train_state st) + 1"
  by (drule iteration_Inr) auto

lemma iteration_losses:
  "iteration cfg env st = Inr st' \<Longrightarrow>
   \<exists>xs. losses (train_state st) = Listed xs \<and>
        losses (train_state st') = Listed (xs @ [current_loss (train_state st')]) \<and>
        current_loss (train_state st') = loss_value (env (step (train_state st')))"
  by (drule iteration_Inr) auto

lemma iterate_step_losses:
  "iterate n cfg env st = Inr st' \<Longrightarrow> losses (train_state st) = Listed xs \<Longrightarrow>
   step (train_state st') = step (train_state st) + int n \<and>
   (\<exists>ys. losses (train_state st') = Listed (xs @ ys) \<and> length ys = n)"
proof (induction n arbitrary: st xs)
  case 0
  then show ?case by simp
next
  case (Suc n)
  from Suc.prems(1) obtain st1 where i: "iteration cfg env st = Inr st1"
    and r: "iterate n cfg env st1 = Inr st'"
    by (auto split: sum.splits)
  from iteration_losses [OF i] Suc.prems(2)
  have l1: "losses (train_state st1) = Listed (xs @ [current_loss (train_state st1)])" by auto
  from Suc.IH [OF r l1] iteration_step [OF i] show ?case by auto
qed

lemma scenario_runnable:
  "runnable scenario_config scenario_env (loop_entry TrainState_init 0)"
  by (simp add: runnable_def scenario_config_def scenario_env_def loop_entry_def
        TrainState_init_def)

lemma iteration_metric:
  assumes "iteration cfg env st = Inr st'"
  shows "metric_steps (trace st') = metric_steps (trace st) @
           (if step (train_state st) mod log_freq cfg = 0 then [step (train_state st) + 1] else [])"
  using iteration_Inr [OF assms] by (auto simp add: metric_steps_append split: if_splits)

lemma iterate_metric:
  "iterate n cfg env st = Inr st' \<Longrightarrow>
   metric_steps (trace st') = metric_steps (trace st) @
     filter (\<lambda>s. (s - 1) mod log_freq cfg = 0)
       [step (train_state st) + 1..step (train_state st) + int n]"
proof (induction n arbitrary: st)
  case 0
  then show ?case by simp
next
  case (Suc n)
  from Suc.prems obtain st1 where i: "iteration cfg env st = Inr st1"
    and r: "iterate n cfg env st1 = Inr st'"
    by (auto split: sum.splits)
  have s: "step (train_state st1) = step (train_state st) + 1" by (rule iteration_step [OF i])
  have u: "[step (train_state st) + 1..step (train_state st) + int (Suc n)] =
           (step (train_state st) + 1) # [step (train_state st1) + 1..step (train_state st1) + int n]"
    using s by (simp add: upto_rec1 add.commute add.left_commute)
  show ?case
    unfolding u using Suc.IH [OF r] iteration_metric [OF i] by simp
qed

lemma while_loop_exit: "\<not> loop_cond cfg st \<Longrightarrow> while_loop k cfg env st = Done st"
  by (cases k) simp_all

lemma while_loop_runs:
  "runnable cfg env st \<Longrightarrow> steps cfg \<noteq> - 1 \<Longrightarrow>
   nat (steps cfg - step (train_state st)) = m \<Longrightarrow>
   \<exists>st'. while_loop (m + k) cfg env st = Done st' \<and> iterate m cfg env st = Inr st'"
proof (induction m arbitrary: st)
  case 0
  then have "\<not> loop_cond cfg st" by (simp add: loop_cond_def)
  then show ?case by (simp add: while_loop_exit)
next
  case (Suc m)
  then have c: "loop_cond cfg st" by (simp add: loop_cond_def)
  from iteration_succeeds [OF Suc.prems(1)] obtain st1 where i: "iteration cfg env st = Inr st1"
    by blast
  have r: "runnable cfg env st1" by (rule iteration_runnable [OF Suc.prems(1) i])
  have "nat (steps cfg - step (train_state st1)) = m"
    using iteration_step [OF i] Suc.prems(3) by simp
  from Suc.IH [OF r Suc.prems(2) this] c i show ?case by simp
qed

lemma while_loop_forever:
  "steps cfg = - 1 \<Longrightarrow> while_loop fuel cfg env st \<noteq> Done st'"
  by (induction fuel arbitrary: st) (auto simp add: loop_cond_def split: sum.splits)

lemma while_loop_forever_progress:
  "steps cfg = - 1 \<Longrightarrow> runnable cfg env st \<Longrightarrow>
   \<exists>st'. while_loop fuel cfg env st = OutOfFuel st' \<and>
         step (train_state st') = step (train_state st) + int fuel"
proof (induction fuel arbitrary: st)
  case 0
  then show ?case by (simp add: loop_cond_def)
next
  case (Suc fuel)
  from iteration_succeeds [OF Suc.prems(2)] obtain st1 where i: "iteration cfg env st = Inr st1"
    by blast
  have r: "runnable cfg env st1" by (rule iteration_runnable [OF Suc.prems(2) i])
  from Suc.IH [OF Suc.prems(1) r] i iteration_step [OF i] Suc.prems(1)
  show ?case by (auto simp add: loop_cond_def)
qed

lemma iteration_fetched:
  assumes "iteration cfg env st = Inr st'"
  shows "\<exists>b rest. loader_iter (env (step (train_state st) + 1)) = b # rest \<and>
           fetched (trace st') = fetched (trace st) @ [b]"
  using iteration_Inr [OF assms] by (auto simp add: fetched_append split: if_splits)

lemma iterate_fetched_const:
  "iterate n cfg env st = Inr st' \<Longrightarrow> \<forall>s. loader_iter (env s) = b # rest \<Longrightarrow>
   fetched (trace st') = fetched (trace st) @ replicate n b"
proof (induction n arbitrary: st)
  case 0
  then show ?case by simp
next
  case (Suc n)
  from Suc.prems(1) obtain st1 where i: "iteration cfg env st = Inr st1"
    and r: "iterate n cfg env st1 = Inr st'"
    by (auto split: sum.splits)
  from iteration_fetched [OF i] Suc.prems(2)
  have "fetched (trace st1) = fetched (trace st) @ [b]" by auto
  with Suc.IH [OF r Suc.prems(2)] show ?case by (simp add: replicate_app_Cons_same)
qed

lemma iteration_points_shape:
  assumes "iteration cfg env st = Inr st'" and "losses (train_state st) = Listed xs"
  shows "\<exists>p1 p2 p3 p4 p5 p6.
     iteration_points cfg env st = [p1, p2, p3, p4, p5, p6, st'] \<and>
     trace p1 = trace st \<and>
     train_state p1 = (train_state st)\<lparr>step := step (train_state st) + 1\<rparr> \<and>
     train_state p2 = train_state p1 \<and> train_state p3 = train_state p1 \<and>
     train_state p4 = train_state st' \<and> train_state p5 = train_state st' \<and>
     train_state p6 = train_state st'"
  using assms
  unfolding iteration_def iteration_points_def body_def
  by (auto simp add: stmt_defs Let_def split: list.splits tolist_value.splits if_splits)

lemma scenario_forever_runnable:
  "runnable (scenario_config\<lparr>steps := - 1\<rparr>) scenario_env (loop_entry TrainState_init 0)"
  by (simp add: runnable_def scenario_config_def scenario_env_def loop_entry_def
        TrainState_init_def)

text \<open>
  What restoring a state from its own snapshot returns, for every state: the step comes
  back when it fits in 32 bits, the current loss comes back rounded to single precision,
  and \<open>losses\<close> comes back as that same rounded number instead of the list.
\<close>

lemma restore_snapshot_eq:
  "restore_snapshot f32 s =
     (if int32_range (step s)
      then Inr (s\<lparr>current_loss := f32 (current_loss s),
                   losses := Bare (f32 (current_loss s))\<rparr>)
      else Inl RuntimeError)"
  by (simp add: restore_snapshot_def state_dict_def load_state_dict_def tensor_int32_def)

section \<open>The claims\<close>

subsection \<open>TrainState: snapshot and restore\<close>

text \<open>
  Claim C1: restoring from a snapshot of a state (\<open>load_state_dict\<close> applied to the
  result of \<open>state_dict\<close>) reproduces the step, the current loss and the sequence of
  losses that the state had. The code does not: for the state with step 1, current loss
  0.5 and losses [0.5], the restored \<open>losses\<close> is the bare number that \<open>state_dict\<close>
  stored under the key "losses", the current loss, and no list at all.
\<close>

theorem restore_snapshot_losses_is_current_loss:
  "restore_snapshot f32 \<lparr>step = 1, current_loss = Fin (1 / 2), losses = Listed [Fin (1 / 2)]\<rparr>
     = Inr \<lparr>step = 1, current_loss = f32 (Fin (1 / 2)), losses = Bare (f32 (Fin (1 / 2)))\<rparr>"
  by (simp add: restore_snapshot_def state_dict_def load_state_dict_def tensor_int32_def
        int32_range_def)

text \<open>
  Claim C2: a record whose step differs from the length of its losses makes
  \<open>load_state_dict\<close> fail with a corruption error. The code accepts it: a record with
  step 3 and one loss is installed as it is.
\<close>

theorem load_state_dict_accepts_mismatch:
  "load_state_dict TrainState_init
     \<lparr>sd_step = Scalar 3, sd_current_loss = Scalar (Fin (1 / 2)),
      sd_losses = Vector [Fin (1 / 2)]\<rparr>
   = Inr \<lparr>step = 3, current_loss = Fin (1 / 2), losses = Listed [Fin (1 / 2)]\<rparr>"
  by (simp add: load_state_dict_def TrainState_init_def)

text \<open>
  Claim C2, as amended: \<open>load_state_dict\<close> compares nothing. For every record whose
  step and current loss are zero-dimensional tensors it returns normally, and step,
  current loss and losses are the record's, whatever the step and the losses tensor are.
\<close>

theorem load_state_dict_unchecked:
  "load_state_dict self \<lparr>sd_step = Scalar n, sd_current_loss = Scalar c, sd_losses = t\<rparr>
     = Inr \<lparr>step = n, current_loss = c, losses = tolist t\<rparr>"
  by (simp add: load_state_dict_def)

text \<open>
  Claim C10: a TrainState made by the constructor has step 0, an empty list of losses and
  the current loss minus one, a number and not an absent value, and this is the state
  observed before the first step completes. The last part fails: in the first iteration
  of the scenario, at the point after the compute, where no loss has been recorded yet,
  losses is empty and the current loss is minus one, but the step is 1 already, so the
  TrainState is not the constructor's.
\<close>

theorem fresh_state_changed_before_first_loss:
  "step (train_state
      (iteration_points scenario_config scenario_env (loop_entry TrainState_init 0) ! 2)) = 1
   \<and> losses (train_state
      (iteration_points scenario_config scenario_env (loop_entry TrainState_init 0) ! 2))
       = Listed []
   \<and> current_loss (train_state
      (iteration_points scenario_config scenario_env (loop_entry TrainState_init 0) ! 2))
       = Fin (- 1)
   \<and> train_state
      (iteration_points scenario_config scenario_env (loop_entry TrainState_init 0) ! 2)
       \<noteq> TrainState_init"
  by (simp add: iteration_points_def body_def stmt_defs Let_def scenario_config_def
        scenario_env_def loop_entry_def TrainState_init_def)

text \<open>
  Claim C10, as amended: a TrainState made by the constructor has step 0, an empty list of
  losses and the current loss minus one, a number and not an absent value. The loop
  entered with it tests its condition on step 0. In the first iteration, when it returns,
  the step is 1 at every point; losses is still empty and the current loss still minus
  one at the three points before the loss is recorded, and they hold the loss of the
  first step at the four points after.
\<close>

theorem fresh_TrainState_until_first_loss:
  assumes "iteration cfg env (loop_entry TrainState_init t0) = Inr st'"
  shows "step TrainState_init = 0
    \<and> losses TrainState_init = Listed []
    \<and> current_loss TrainState_init = Fin (- 1)
    \<and> (loop_cond cfg (loop_entry TrainState_init t0) \<longleftrightarrow> 0 < steps cfg \<or> steps cfg = - 1)
    \<and> length (iteration_points cfg env (loop_entry TrainState_init t0)) = 7
    \<and> list_all (\<lambda>p. train_state p = \<lparr>step = 1, current_loss = Fin (- 1), losses = Listed []\<rparr>)
         (take 3 (iteration_points cfg env (loop_entry TrainState_init t0)))
    \<and> list_all (\<lambda>p. train_state p =
                      \<lparr>step = 1, current_loss = loss_value (env 1),
                       losses = Listed [loss_value (env 1)]\<rparr>)
         (drop 3 (iteration_points cfg env (loop_entry TrainState_init t0)))"
proof -
  let ?s0 = "loop_entry TrainState_init t0"
  have t: "train_state ?s0 = \<lparr>step = 0, current_loss = Fin (- 1), losses = Listed []\<rparr>"
    by (simp add: loop_entry_def TrainState_init_def)
  then have l: "losses (train_state ?s0) = Listed []" by simp
  from iteration_points_shape [OF assms l] obtain p1 p2 p3 p4 p5 p6 where
    ps: "iteration_points cfg env ?s0 = [p1, p2, p3, p4, p5, p6, st']"
    and a: "train_state p1 = (train_state ?s0)\<lparr>step := step (train_state ?s0) + 1\<rparr>"
      "train_state p2 = train_state p1" "train_state p3 = train_state p1"
    and b: "train_state p4 = train_state st'" "train_state p5 = train_state st'"
      "train_state p6 = train_state st'"
    by blast
  from iteration_Inr [OF assms] t
  have e: "train_state st' =
      \<lparr>step = 1, current_loss = loss_value (env 1), losses = Listed [loss_value (env 1)]\<rparr>"
    by auto
  have c: "loop_cond cfg ?s0 \<longleftrightarrow> 0 < steps cfg \<or> steps cfg = - 1"
    using t by (simp add: loop_cond_def)
  show ?thesis
    unfolding ps using a b e t c by (simp add: TrainState_init_def)
qed

text \<open>The amended claim C10 in the scenario, whose first loss is NaN.\<close>

theorem fresh_TrainState_until_first_loss_witness:
  "\<exists>st'. iteration scenario_config scenario_env (loop_entry TrainState_init 0) = Inr st'
     \<and> loop_cond scenario_config (loop_entry TrainState_init 0)
     \<and> list_all (\<lambda>p. train_state p = \<lparr>step = 1, current_loss = Fin (- 1), losses = Listed []\<rparr>)
         (take 3 (iteration_points scenario_config scenario_env (loop_entry TrainState_init 0)))
     \<and> list_all (\<lambda>p. train_state p = \<lparr>step = 1, current_loss = NaN, losses = Listed [NaN]\<rparr>)
         (drop 3 (iteration_points scenario_config scenario_env (loop_entry TrainState_init 0)))"
proof -
  from iteration_succeeds [OF scenario_runnable] obtain st' where
    i: "iteration scenario_config scenario_env (loop_entry TrainState_init 0) = Inr st'" by blast
  have v: "loss_value (scenario_env 1) = NaN" "0 < steps scenario_config"
    by (simp_all add: scenario_env_def scenario_config_def)
  from fresh_TrainState_until_first_loss [OF i] i v show ?thesis by auto
qed

subsection \<open>The step counter and the list of losses\<close>

text \<open>
  Claim C3: within an iteration the step is incremented only after the loss of that step
  has been computed, so that step equals the length of losses at every point between
  operations. The code increments first: in the first iteration of the scenario there are
  seven points, and at the first of them step is 1 while losses is still empty.
\<close>

theorem step_ahead_of_losses:
  "length (iteration_points scenario_config scenario_env (loop_entry TrainState_init 0)) = 7
   \<and> step (train_state
        (iteration_points scenario_config scenario_env (loop_entry TrainState_init 0) ! 0)) = 1
   \<and> losses (train_state
        (iteration_points scenario_config scenario_env (loop_entry TrainState_init 0) ! 0))
       = Listed []"
  by (simp add: iteration_points_def body_def stmt_defs Let_def scenario_config_def
        scenario_env_def loop_entry_def TrainState_init_def)

text \<open>
  Claim C3, as amended: the step is incremented first, before any call of the iteration
  is made. In an iteration that starts with step equal to the length of losses and that
  returns, step is one more than the length of losses at the three points after the
  increment, after the batch fetch and after the compute, and equals the length of losses
  at the four points from the append of the loss to the end of the iteration.
\<close>

theorem step_incremented_first:
  assumes "losses (train_state st) = Listed xs"
    and "step (train_state st) = int (length xs)"
    and "iteration cfg env st = Inr st'"
  shows "length (iteration_points cfg env st) = 7
    \<and> trace (iteration_points cfg env st ! 0) = trace st
    \<and> list_all (\<lambda>p. losses (train_state p) = Listed xs
                     \<and> step (train_state p) = int (length xs) + 1)
         (take 3 (iteration_points cfg env st))
    \<and> list_all (\<lambda>p. \<exists>l. losses (train_state p) = Listed (xs @ [l])
                     \<and> step (train_state p) = int (length (xs @ [l])))
         (drop 3 (iteration_points cfg env st))
    \<and> last (iteration_points cfg env st) = st'"
proof -
  from iteration_points_shape [OF assms(3) assms(1)] obtain p1 p2 p3 p4 p5 p6 where
    ps: "iteration_points cfg env st = [p1, p2, p3, p4, p5, p6, st']"
    and t: "trace p1 = trace st"
    and a: "train_state p1 = (train_state st)\<lparr>step := step (train_state st) + 1\<rparr>"
      "train_state p2 = train_state p1" "train_state p3 = train_state p1"
    and b: "train_state p4 = train_state st'" "train_state p5 = train_state st'"
      "train_state p6 = train_state st'"
    by blast
  from iteration_losses [OF assms(3)] assms(1)
  have l: "losses (train_state st') = Listed (xs @ [current_loss (train_state st')])" by simp
  have s: "step (train_state st') = int (length xs) + 1"
    using iteration_step [OF assms(3)] assms(2) by simp
  show ?thesis
    unfolding ps using t a b l s assms(1,2) by simp
qed

text \<open>The amended claim C3 in the first iteration of the scenario.\<close>

theorem step_incremented_first_witness:
  "\<exists>st'. iteration scenario_config scenario_env (loop_entry TrainState_init 0) = Inr st'
     \<and> length (iteration_points scenario_config scenario_env (loop_entry TrainState_init 0)) = 7
     \<and> list_all (\<lambda>p. losses (train_state p) = Listed [] \<and> step (train_state p) = 1)
         (take 3 (iteration_points scenario_config scenario_env (loop_entry TrainState_init 0)))
     \<and> list_all (\<lambda>p. \<exists>l. losses (train_state p) = Listed [l] \<and> step (train_state p) = 1)
         (drop 3 (iteration_points scenario_config scenario_env (loop_entry TrainState_init 0)))"
proof -
  from iteration_succeeds [OF scenario_runnable] obtain st' where
    i: "iteration scenario_config scenario_env (loop_entry TrainState_init 0) = Inr st'" by blast
  have l: "losses (train_state (loop_entry TrainState_init 0)) = Listed []"
    by (simp add: loop_entry_def TrainState_init_def)
  have s: "step (train_state (loop_entry TrainState_init 0)) = int (length ([] :: pyfloat list))"
    by (simp add: loop_entry_def TrainState_init_def)
  from step_incremented_first [OF l s i] i show ?thesis by simp
qed

text \<open>
  Claim C4: from a fresh TrainState, after any number \<open>n\<close> of completed iterations the
  step is \<open>n\<close> and losses has \<open>n\<close> elements, and one more iteration adds exactly one
  to each.
\<close>

theorem step_tracks_losses:
  assumes "iterate n cfg env (loop_entry TrainState_init t0) = Inr st"
    and "iteration cfg env st = Inr st'"
  shows "step (train_state st) = int n
    \<and> (\<exists>xs. losses (train_state st) = Listed xs \<and> length xs = n)
    \<and> step (train_state st') = step (train_state st) + 1
    \<and> (\<exists>ys. losses (train_state st') = Listed ys \<and> length ys = n + 1)"
proof -
  have l: "losses (train_state (loop_entry TrainState_init t0)) = Listed []"
    by (simp add: loop_entry_def TrainState_init_def)
  from iterate_step_losses [OF assms(1) l]
  have a: "step (train_state st) = int n"
    and b: "\<exists>xs. losses (train_state st) = Listed xs \<and> length xs = n"
    by (simp_all add: loop_entry_def TrainState_init_def)
  from iteration_losses [OF assms(2)] b
  have "\<exists>ys. losses (train_state st') = Listed ys \<and> length ys = n + 1" by auto
  with a b iteration_step [OF assms(2)] show ?thesis by simp
qed

text \<open>Claim C4 after three iterations of the scenario, and a fourth.\<close>

theorem step_tracks_losses_witness:
  "\<exists>st st'. iterate 3 scenario_config scenario_env (loop_entry TrainState_init 0) = Inr st
     \<and> iteration scenario_config scenario_env st = Inr st'
     \<and> step (train_state st) = 3 \<and> step (train_state st') = 4
     \<and> (\<exists>ys. losses (train_state st') = Listed ys \<and> length ys = 4)"
proof -
  from iterate_succeeds [OF scenario_runnable, of 3] obtain st where
    n: "iterate 3 scenario_config scenario_env (loop_entry TrainState_init 0) = Inr st"
    and r: "runnable scenario_config scenario_env st" by blast
  from iteration_succeeds [OF r] obtain st' where
    i: "iteration scenario_config scenario_env st = Inr st'" by blast
  from step_tracks_losses [OF n i] n i show ?thesis by auto
qed

subsection \<open>Metric emissions\<close>

text \<open>
  Claim C5: for a positive log frequency \<open>f\<close>, the steps at which a metric record has
  been emitted after \<open>n\<close> iterations from a fresh TrainState are exactly the steps \<open>s\<close>
  from 1 to \<open>n\<close> with \<open>(s - 1) mod f = 0\<close>; the next iteration emits one record,
  tagged with its step, and empties the window of losses and the count of words when its
  step is such a step, and emits nothing and extends the window when it is not.
\<close>

theorem metric_cadence:
  assumes "0 < log_freq cfg"
    and "iterate n cfg env (loop_entry TrainState_init t0) = Inr st"
    and "iteration cfg env st = Inr st'"
  shows "metric_steps (trace st) = filter (\<lambda>s. (s - 1) mod log_freq cfg = 0) [1..int n]
    \<and> step (train_state st') = int n + 1
    \<and> ((step (train_state st') - 1) mod log_freq cfg = 0 \<longrightarrow>
         metric_steps (trace st') = metric_steps (trace st) @ [step (train_state st')]
         \<and> losses_since_last_log st' = [] \<and> nwords_since_last_log st' = 0)
    \<and> ((step (train_state st') - 1) mod log_freq cfg \<noteq> 0 \<longrightarrow>
         metric_steps (trace st') = metric_steps (trace st)
         \<and> losses_since_last_log st' =
             losses_since_last_log st @ [current_loss (train_state st')])"
proof -
  have l: "losses (train_state (loop_entry TrainState_init t0)) = Listed []"
    by (simp add: loop_entry_def TrainState_init_def)
  have s: "step (train_state st) = int n"
    using iterate_step_losses [OF assms(2) l] by (simp add: loop_entry_def TrainState_init_def)
  have m: "metric_steps (trace st) = filter (\<lambda>s. (s - 1) mod log_freq cfg = 0) [1..int n]"
    using iterate_metric [OF assms(2)] by (simp add: loop_entry_def TrainState_init_def)
  have s': "step (train_state st') = int n + 1"
    using iteration_step [OF assms(3)] s by simp
  from iteration_Inr [OF assms(3)] have w:
    "if step (train_state st) mod log_freq cfg = 0
     then losses_since_last_log st' = [] \<and> nwords_since_last_log st' = 0
     else losses_since_last_log st' =
            losses_since_last_log st @ [current_loss (train_state st')]"
    by (auto split: if_splits)
  show ?thesis
    using m s s' w iteration_metric [OF assms(3)] by (simp split: if_splits)
qed

text \<open>
  Claim C5 in the scenario: with a log frequency of 5, ten steps emit two records, at
  steps 1 and 6.
\<close>

theorem metric_cadence_witness:
  "\<exists>st st'. iterate 9 scenario_config scenario_env (loop_entry TrainState_init 0) = Inr st
     \<and> iteration scenario_config scenario_env st = Inr st'
     \<and> step (train_state st') = 10
     \<and> metric_steps (trace st') = [1, 6]"
proof -
  from iterate_succeeds [OF scenario_runnable, of 9] obtain st where
    n: "iterate 9 scenario_config scenario_env (loop_entry TrainState_init 0) = Inr st"
    and r: "runnable scenario_config scenario_env st" by blast
  from iteration_succeeds [OF r] obtain st' where
    i: "iteration scenario_config scenario_env st = Inr st'" by blast
  have f: "0 < log_freq scenario_config" by (simp add: scenario_config_def)
  have u: "[1..9] = [1, 2, 3, 4, 5, 6, 7, 8, 9 :: int]" by code_simp
  from metric_cadence [OF f n i] n i show ?thesis
    by (auto simp add: scenario_config_def u)
qed

subsection \<open>The stop condition\<close>

text \<open>
  Claim C6: for a configured number of steps \<open>n > 0\<close>, the loop entered with a fresh
  TrainState returns, once it may start \<open>n\<close> iterations or more, with step \<open>n\<close> and
  \<open>n\<close> losses, provided no statement raises. With the sentinel \<open>-1\<close> the loop never
  returns through its condition, from any state and however many iterations it may
  start; when no statement raises it is still running after any number of iterations,
  with the step advanced by that number.
\<close>

theorem loop_terminates_at_steps:
  "(0 < steps cfg \<and> runnable cfg env (loop_entry TrainState_init t0) \<longrightarrow>
      (\<exists>st. while_loop (nat (steps cfg) + extra) cfg env (loop_entry TrainState_init t0) = Done st
         \<and> step (train_state st) = steps cfg
         \<and> (\<exists>xs. losses (train_state st) = Listed xs \<and> int (length xs) = steps cfg)))
   \<and> (steps cfg = - 1 \<longrightarrow> while_loop fuel cfg env st0 \<noteq> Done st1)
   \<and> (steps cfg = - 1 \<and> runnable cfg env st0 \<longrightarrow>
        (\<exists>st2. while_loop fuel cfg env st0 = OutOfFuel st2
           \<and> step (train_state st2) = step (train_state st0) + int fuel))"
proof (intro conjI impI)
  assume a: "0 < steps cfg \<and> runnable cfg env (loop_entry TrainState_init t0)"
  let ?s0 = "loop_entry TrainState_init t0"
  have z: "step (train_state ?s0) = 0" and l: "losses (train_state ?s0) = Listed []"
    by (simp_all add: loop_entry_def TrainState_init_def)
  have "nat (steps cfg - step (train_state ?s0)) = nat (steps cfg)" using z by simp
  from while_loop_runs [OF _ _ this, of env extra] a obtain st where
    w: "while_loop (nat (steps cfg) + extra) cfg env ?s0 = Done st"
    and i: "iterate (nat (steps cfg)) cfg env ?s0 = Inr st" by auto
  from iterate_step_losses [OF i l] z a
  have "step (train_state st) = steps cfg
        \<and> (\<exists>xs. losses (train_state st) = Listed xs \<and> int (length xs) = steps cfg)"
    by auto
  with w show "\<exists>st. while_loop (nat (steps cfg) + extra) cfg env ?s0 = Done st
         \<and> step (train_state st) = steps cfg
         \<and> (\<exists>xs. losses (train_state st) = Listed xs \<and> int (length xs) = steps cfg)"
    by blast
next
  assume "steps cfg = - 1"
  then show "while_loop fuel cfg env st0 \<noteq> Done st1" by (rule while_loop_forever)
next
  assume "steps cfg = - 1 \<and> runnable cfg env st0"
  then show "\<exists>st2. while_loop fuel cfg env st0 = OutOfFuel st2
           \<and> step (train_state st2) = step (train_state st0) + int fuel"
    using while_loop_forever_progress by blast
qed

text \<open>
  Claim C6 in the scenario: ten steps end at step 10, and the same run with the sentinel
  is at step 1000 after a thousand iterations, still running.
\<close>

theorem loop_terminates_at_steps_witness:
  "(\<exists>st. while_loop 10 scenario_config scenario_env (loop_entry TrainState_init 0) = Done st
      \<and> step (train_state st) = 10
      \<and> (\<exists>xs. losses (train_state st) = Listed xs \<and> length xs = 10))
   \<and> (\<exists>st2. while_loop 1000 (scenario_config\<lparr>steps := - 1\<rparr>) scenario_env
               (loop_entry TrainState_init 0) = OutOfFuel st2
         \<and> step (train_state st2) = 1000)"
proof -
  have p: "0 < steps scenario_config" "nat (steps scenario_config) + 0 = 10"
    by (simp_all add: scenario_config_def)
  have q: "steps (scenario_config\<lparr>steps := - 1\<rparr>) = - 1" by simp
  have z: "step (train_state (loop_entry TrainState_init 0)) = 0"
    by (simp add: loop_entry_def TrainState_init_def)
  have "\<exists>st. while_loop 10 scenario_config scenario_env (loop_entry TrainState_init 0) = Done st
      \<and> step (train_state st) = 10
      \<and> (\<exists>xs. losses (train_state st) = Listed xs \<and> length xs = 10)"
    using loop_terminates_at_steps [of scenario_config scenario_env 0 0] p scenario_runnable
    by (auto simp add: scenario_config_def)
  moreover have "\<exists>st2. while_loop 1000 (scenario_config\<lparr>steps := - 1\<rparr>) scenario_env
               (loop_entry TrainState_init 0) = OutOfFuel st2
         \<and> step (train_state st2) = 1000"
    using loop_terminates_at_steps
            [of "scenario_config\<lparr>steps := - 1\<rparr>" scenario_env 0 0 1000
               "loop_entry TrainState_init 0"]
          q scenario_forever_runnable z
    by auto
  ultimately show ?thesis by blast
qed

subsection \<open>The order of the calls in an iteration\<close>

text \<open>
  Claim C7: every iteration that returns has made exactly one checkpoint save request,
  as its last call, with the force flag true exactly when the step equals the configured
  number of steps. The request carries the step and sees the TrainState as the iteration
  leaves it, with the step advanced and the loss appended; the batch fetch is the first
  call of the iteration, so the request comes before the next fetch.
\<close>

theorem save_forced_at_final_step:
  assumes "iteration cfg env st = Inr st'"
  shows "\<exists>b mid. trace st' = trace st @ FetchBatch b # mid @
            [CheckpointSave (step (train_state st')) (step (train_state st') = steps cfg)
               (train_state st')]
    \<and> list_all (\<lambda>ev. \<not> is_fetch ev \<and> \<not> is_save ev) mid
    \<and> step (train_state st') = step (train_state st) + 1
    \<and> (\<exists>xs. losses (train_state st) = Listed xs
          \<and> losses (train_state st') = Listed (xs @ [current_loss (train_state st')]))"
  using iteration_Inr [OF assms] by (auto split: if_splits)

text \<open>Claim C7 in the first iteration of the scenario, where the flag is false.\<close>

theorem save_forced_at_final_step_witness:
  "\<exists>st' b mid. iteration scenario_config scenario_env (loop_entry TrainState_init 0) = Inr st'
     \<and> trace st' = FetchBatch b # mid @ [CheckpointSave 1 False (train_state st')]
     \<and> list_all (\<lambda>ev. \<not> is_fetch ev \<and> \<not> is_save ev) mid
     \<and> step (train_state st') = 1"
proof -
  from iteration_succeeds [OF scenario_runnable] obtain st' where
    i: "iteration scenario_config scenario_env (loop_entry TrainState_init 0) = Inr st'" by blast
  from save_forced_at_final_step [OF i] i show ?thesis
    by (auto simp add: loop_entry_def TrainState_init_def scenario_config_def)
qed

text \<open>
  Claim C8: whenever no statement raises, an iteration returns with the step advanced by
  one and has advanced the learning-rate scheduler exactly once, whether or not the
  gradients were finite; the optimizer step is the only call that depends on them, and
  is left out exactly when scaling is enabled and they are not finite.
\<close>

theorem scheduler_always_advances:
  assumes "runnable cfg env st"
  shows "\<exists>st' evs. iteration cfg env st = Inr st'
    \<and> trace st' = trace st @ evs
    \<and> count_list evs SchedulerStep = 1
    \<and> (OptimizerStep \<in> set evs \<longleftrightarrow>
         \<not> (enable_grad_scaling cfg \<and> \<not> grads_finite (env (step (train_state st) + 1))))
    \<and> step (train_state st') = step (train_state st) + 1"
proof -
  from iteration_succeeds [OF assms] obtain st' where i: "iteration cfg env st = Inr st'"
    by blast
  from iteration_Inr [OF i] i show ?thesis by (auto split: if_splits)
qed

text \<open>
  Claim C8 in the first iteration of the scenario, whose gradients are not finite: the
  optimizer step is skipped, the scheduler advances, and the step becomes 1.
\<close>

theorem scheduler_always_advances_witness:
  "\<not> grads_finite (scenario_env 1) \<and> enable_grad_scaling scenario_config
   \<and> (\<exists>st' evs. iteration scenario_config scenario_env (loop_entry TrainState_init 0) = Inr st'
        \<and> trace st' = evs
        \<and> count_list evs SchedulerStep = 1
        \<and> OptimizerStep \<notin> set evs
        \<and> step (train_state st') = 1)"
  using scheduler_always_advances [OF scenario_runnable]
  by (auto simp add: loop_entry_def TrainState_init_def scenario_config_def scenario_env_def)

text \<open>
  Claim C9: the batch of an iteration is the first element of an iterator newly created
  over the data loader in that iteration; nothing of the iterator is kept. When the
  loader yields the same sequence each time it is iterated, every iteration fetches the
  first batch of that sequence.
\<close>

theorem batch_refetched_from_start:
  assumes "iterate n cfg env st = Inr st1"
    and "iteration cfg env st1 = Inr st2"
  shows "(\<exists>b rest. loader_iter (env (step (train_state st1) + 1)) = b # rest
            \<and> fetched (trace st2) = fetched (trace st1) @ [b])
    \<and> ((\<forall>s. loader_iter (env s) = b0 # rest0) \<longrightarrow>
          fetched (trace st2) = fetched (trace st) @ replicate (Suc n) b0)"
proof (intro conjI impI)
  show "\<exists>b rest. loader_iter (env (step (train_state st1) + 1)) = b # rest
            \<and> fetched (trace st2) = fetched (trace st1) @ [b]"
    by (rule iteration_fetched [OF assms(2)])
next
  assume d: "\<forall>s. loader_iter (env s) = b0 # rest0"
  from iterate_fetched_const [OF assms(1) d]
  have "fetched (trace st1) = fetched (trace st) @ replicate n b0" .
  moreover from iteration_fetched [OF assms(2)] d
  have "fetched (trace st2) = fetched (trace st1) @ [b0]" by auto
  ultimately show "fetched (trace st2) = fetched (trace st) @ replicate (Suc n) b0"
    by (simp add: replicate_append_same)
qed

text \<open>
  Claim C9 in the scenario: three iterations fetch the first of the two batches three
  times.
\<close>

theorem batch_refetched_from_start_witness:
  "\<exists>st1 st2. iterate 2 scenario_config scenario_env (loop_entry TrainState_init 0) = Inr st1
     \<and> iteration scenario_config scenario_env st1 = Inr st2
     \<and> fetched (trace st2) =
         [([[1, 2]], [[2, 3]]), ([[1, 2]], [[2, 3]]), ([[1, 2]], [[2, 3]])]"
proof -
  from iterate_succeeds [OF scenario_runnable, of 2] obtain st1 where
    n: "iterate 2 scenario_config scenario_env (loop_entry TrainState_init 0) = Inr st1"
    and r: "runnable scenario_config scenario_env st1" by blast
  from iteration_succeeds [OF r] obtain st2 where
    i: "iteration scenario_config scenario_env st1 = Inr st2" by blast
  have d: "\<forall>s. loader_iter (scenario_env s) = ([[1, 2]], [[2, 3]]) # [([[3, 4]], [[4, 5]])]"
    by (simp add: scenario_env_def)
  have e: "fetched (trace (loop_entry TrainState_init 0)) = []" by (simp add: loop_entry_def)
  have k: "replicate (Suc 2) x = [x, x, x]" for x :: batch by (simp add: numeral_2_eq_2)
  from batch_refetched_from_start
         [OF n i, of "([[1, 2]], [[2, 3]])" "[([[3, 4]], [[4, 5]])]"] d
  have "fetched (trace st2) =
          fetched (trace (loop_entry TrainState_init 0)) @ replicate (Suc 2) ([[1, 2]], [[2, 3]])"
    by blast
  then have "fetched (trace st2) =
         [([[1, 2]], [[2, 3]]), ([[1, 2]], [[2, 3]]), ([[1, 2]], [[2, 3]])]"
    unfolding k e by simp
  with n i show ?thesis by blast
qed

end
